theory Spec2Isabelle
  imports Complex_Main "HOL-Library.Log_Nat"
begin

section \<open>Data model of \<^verbatim>\<open>time_tracker.py\<close>\<close>

text \<open>
  Timestamps (\<^verbatim>\<open>datetime.now()\<close>) are seconds since some epoch and durations
  (\<^verbatim>\<open>timedelta.total_seconds()\<close>) are seconds; both are rationals, so fractions of a
  second are kept. In the methods of the next section every sum and difference is exact; the
  section on float arithmetic gives the fold of a session with the rounding of each float
  operation. Every method takes the reading of the clock as its argument \<open>now\<close>; a method
  that reads the clock twice gets the same reading both times, and a function of
  \<^verbatim>\<open>bot.py\<close> that calls two methods takes one reading for each call. A user identifier is the integer \<^verbatim>\<open>user_id\<close>; the dictionary key
  \<^verbatim>\<open>str(user_id)\<close> is in bijection with it.
\<close>

type_synonym uid = int
type_synonym seconds = rat
type_synonym timestamp = rat

text \<open>An entry of the list \<^verbatim>\<open>sessions\<close>: the keys \<^verbatim>\<open>start\<close>, \<^verbatim>\<open>end\<close>, \<^verbatim>\<open>duration\<close>.\<close>

record session_record =
  start_key :: "timestamp option"
  end_key :: timestamp
  duration_key :: seconds

text \<open>
  The dictionary kept for one user. The eight keys that \<^verbatim>\<open>start_tracking\<close> and
  \<^verbatim>\<open>add_minutes\<close> write when they create an entry are fields; the keys \<^verbatim>\<open>last_start\<close>,
  \<^verbatim>\<open>pause_start\<close> and \<^verbatim>\<open>last_milestone_check\<close>, which are added and deleted later, are
  optional fields (\<open>None\<close> when the key is absent).
\<close>

record user_record =
  name :: string
  total_time :: seconds
  sessions :: "session_record list"
  is_active :: bool
  is_paused :: bool
  pause_count :: int
  notified_milestones :: "int list"
  milestone_completed :: bool
  last_start :: "timestamp option"
  pause_start :: "timestamp option"
  last_milestone_check :: "seconds option"

text \<open>
  The object \<^verbatim>\<open>TimeTracker\<close>: \<open>data\<close> is the dictionary \<^verbatim>\<open>self.data\<close> in memory and
  \<open>saved\<close> is what the file \<^verbatim>\<open>data_file\<close> holds, that is \<^verbatim>\<open>self.data\<close> as it was at the
  last call of \<^verbatim>\<open>save_data\<close>.
\<close>

record tracker =
  data :: "uid \<rightharpoonup> user_record"
  saved :: "uid \<rightharpoonup> user_record"

definition save_data :: "tracker \<Rightarrow> tracker" where
  "save_data t = t\<lparr>saved := data t\<rparr>"

text \<open>The dictionary literal of \<^verbatim>\<open>start_tracking\<close> and \<^verbatim>\<open>add_minutes\<close>.\<close>

definition new_record :: "string \<Rightarrow> user_record" where
  "new_record user_name =
     \<lparr>name = user_name, total_time = 0, sessions = [], is_active = False, is_paused = False,
      pause_count = 0, notified_milestones = [], milestone_completed = False,
      last_start = None, pause_start = None, last_milestone_check = None\<rparr>"

definition empty_tracker :: tracker where
  "empty_tracker = \<lparr>data = Map.empty, saved = Map.empty\<rparr>"

section \<open>The methods of \<^verbatim>\<open>TimeTracker\<close>\<close>

text \<open>
  Each method returns its result together with the tracker it leaves behind. A method that
  mutates the dictionary of a user in place stores the changed record under the user's key.
\<close>

definition start_tracking :: "tracker \<Rightarrow> uid \<Rightarrow> string \<Rightarrow> timestamp \<Rightarrow> bool \<times> tracker" where
  "start_tracking t user_id user_name now =
     (let current_time = now;
          t1 = (if data t user_id = None
                then t\<lparr>data := (data t)(user_id \<mapsto> new_record user_name)\<rparr> else t)
      in case data t1 user_id of
           None \<Rightarrow> (False, t1)
         | Some user_data \<Rightarrow>
             if is_active user_data then (False, t1)
             else if is_paused user_data then (False, t1)
             else (True, save_data (t1\<lparr>data := (data t1)(user_id \<mapsto>
                     user_data\<lparr>is_active := True, is_paused := False,
                                last_start := Some current_time, name := user_name\<rparr>)\<rparr>)))"

definition stop_tracking :: "tracker \<Rightarrow> uid \<Rightarrow> timestamp \<Rightarrow> bool \<times> tracker" where
  "stop_tracking t user_id now =
     (case data t user_id of
        None \<Rightarrow> (False, t)
      | Some user_data \<Rightarrow>
          if \<not> is_active user_data then (False, t)
          else
            let folded = (case last_start user_data of
                            Some session_start \<Rightarrow>
                              user_data\<lparr>total_time := total_time user_data + (now - session_start)\<rparr>
                          | None \<Rightarrow> user_data);
                idle = folded\<lparr>is_active := False, is_paused := False\<rparr>;
                entry = \<lparr>start_key = last_start idle, end_key = now,
                         duration_key = (case last_start idle of
                                               Some session_start \<Rightarrow> now - session_start
                                             | None \<Rightarrow> 0)\<rparr>
            in (True, save_data (t\<lparr>data := (data t)(user_id \<mapsto>
                        idle\<lparr>sessions := sessions idle @ [entry]\<rparr>)\<rparr>)))"

definition pause_tracking :: "tracker \<Rightarrow> uid \<Rightarrow> timestamp \<Rightarrow> bool \<times> tracker" where
  "pause_tracking t user_id now =
     (case data t user_id of
        None \<Rightarrow> (False, t)
      | Some user_data \<Rightarrow>
          if \<not> is_active user_data then (False, t)
          else
            let folded = (case last_start user_data of
                            Some session_start \<Rightarrow>
                              user_data\<lparr>total_time := total_time user_data + (now - session_start)\<rparr>
                          | None \<Rightarrow> user_data)
            in (True, save_data (t\<lparr>data := (data t)(user_id \<mapsto>
                        folded\<lparr>is_active := False, is_paused := True, pause_start := Some now,
                                pause_count := pause_count folded + 1\<rparr>)\<rparr>)))"

definition resume_tracking :: "tracker \<Rightarrow> uid \<Rightarrow> timestamp \<Rightarrow> bool \<times> tracker" where
  "resume_tracking t user_id now =
     (case data t user_id of
        None \<Rightarrow> (False, t)
      | Some user_data \<Rightarrow>
          if \<not> is_paused user_data then (False, t)
          else (True, save_data (t\<lparr>data := (data t)(user_id \<mapsto>
                  user_data\<lparr>is_active := True, is_paused := False, last_start := Some now,
                            pause_start := None\<rparr>)\<rparr>)))"

definition get_total_time :: "tracker \<Rightarrow> uid \<Rightarrow> timestamp \<Rightarrow> seconds \<times> tracker" where
  "get_total_time t user_id now =
     (case data t user_id of
        None \<Rightarrow> (0, t)
      | Some user_data \<Rightarrow>
          (if is_active user_data
           then (case last_start user_data of
                   Some session_start \<Rightarrow> (total_time user_data + (now - session_start), t)
                 | None \<Rightarrow> (total_time user_data, t))
           else (total_time user_data, t)))"

definition get_user_data :: "tracker \<Rightarrow> uid \<Rightarrow> user_record option \<times> tracker" where
  "get_user_data t user_id = (data t user_id, t)"

definition reset_user_time :: "tracker \<Rightarrow> uid \<Rightarrow> bool \<times> tracker" where
  "reset_user_time t user_id =
     (case data t user_id of
        None \<Rightarrow> (False, t)
      | Some user_data \<Rightarrow>
          (True, save_data (t\<lparr>data := (data t)(user_id \<mapsto>
             user_data\<lparr>total_time := 0, is_active := False, is_paused := False, pause_count := 0,
                       sessions := [], notified_milestones := [], milestone_completed := False,
                       last_start := None, pause_start := None\<rparr>)\<rparr>)))"

definition cancel_user_tracking :: "tracker \<Rightarrow> uid \<Rightarrow> bool \<times> tracker" where
  "cancel_user_tracking t user_id =
     (if data t user_id = None then (False, t)
      else (True, save_data (t\<lparr>data := (data t)(user_id := None)\<rparr>)))"

definition add_minutes :: "tracker \<Rightarrow> uid \<Rightarrow> string \<Rightarrow> int \<Rightarrow> bool \<times> tracker" where
  "add_minutes t user_id user_name minutes =
     (let t1 = (if data t user_id = None
                then t\<lparr>data := (data t)(user_id \<mapsto> new_record user_name)\<rparr> else t)
      in case data t1 user_id of
           None \<Rightarrow> (False, t1)
         | Some user_data \<Rightarrow>
             (True, save_data (t1\<lparr>data := (data t1)(user_id \<mapsto>
                user_data\<lparr>total_time := total_time user_data + of_int (minutes * 60),
                          name := user_name\<rparr>)\<rparr>)))"

definition subtract_minutes :: "tracker \<Rightarrow> uid \<Rightarrow> int \<Rightarrow> bool \<times> tracker" where
  "subtract_minutes t user_id minutes =
     (case data t user_id of
        None \<Rightarrow> (False, t)
      | Some user_data \<Rightarrow>
          (let current_time = total_time user_data;
               new_time = max 0 (current_time - of_int (minutes * 60))
           in (True, save_data (t\<lparr>data := (data t)(user_id \<mapsto>
                 user_data\<lparr>total_time := new_time\<rparr>)\<rparr>))))"

definition get_pause_count :: "tracker \<Rightarrow> uid \<Rightarrow> int \<times> tracker" where
  "get_pause_count t user_id =
     (case data t user_id of None \<Rightarrow> (0, t) | Some user_data \<Rightarrow> (pause_count user_data, t))"

subsection \<open>\<^verbatim>\<open>format_time_human\<close>\<close>

text \<open>Python's \<^verbatim>\<open>x // m\<close> and \<^verbatim>\<open>x % m\<close> on numbers, for a positive \<open>m\<close>.\<close>

definition py_floordiv :: "rat \<Rightarrow> rat \<Rightarrow> int" where
  "py_floordiv x m = \<lfloor>x / m\<rfloor>"

definition py_mod :: "rat \<Rightarrow> rat \<Rightarrow> rat" where
  "py_mod x m = x - m * of_int \<lfloor>x / m\<rfloor>"

text \<open>The decimal digits of an integer, as \<^verbatim>\<open>str\<close> and an f-string print them.\<close>

definition digit_char :: "nat \<Rightarrow> char" where
  "digit_char d = ''0123456789'' ! d"

fun str_nat :: "nat \<Rightarrow> string" where
  "str_nat n = (if n < 10 then [digit_char n] else str_nat (n div 10) @ [digit_char (n mod 10)])"

declare str_nat.simps [simp del]

definition str_int :: "int \<Rightarrow> string" where
  "str_int i = (if i < 0 then CHR ''-'' # str_nat (nat (- i)) else str_nat (nat i))"

text \<open>\<^verbatim>\<open>sep.join(parts)\<close>\<close>

fun join :: "string \<Rightarrow> string list \<Rightarrow> string" where
  "join sep [] = []"
| "join sep [p] = p"
| "join sep (p # q # ps) = p @ sep @ join sep (q # ps)"

definition format_time_human :: "seconds \<Rightarrow> string" where
  "format_time_human secs_in =
     (if secs_in < 0 then ''0 Segundos''
      else
        let hours = py_floordiv secs_in 3600;
            minutes = \<lfloor>py_mod secs_in 3600 / 60\<rfloor>;
            secs = \<lfloor>py_mod secs_in 60\<rfloor>;
            parts0 = [];
            parts1 = (if hours > 0
                      then parts0 @ [str_int hours @ '' Hora'' @ (if hours \<noteq> 1 then ''s'' else '''')]
                      else parts0);
            parts2 = (if minutes > 0
                      then parts1 @ [str_int minutes @ '' Minuto'' @ (if minutes \<noteq> 1 then ''s'' else '''')]
                      else parts1);
            parts3 = (if secs > 0 \<or> parts2 = []
                      then parts2 @ [str_int secs @ '' Segundo'' @ (if secs \<noteq> 1 then ''s'' else '''')]
                      else parts2)
        in join '', '' parts3)"

section \<open>\<^verbatim>\<open>bot.py\<close>: credits\<close>

text \<open>
  A Python number is an int, of any size, or a float; a float is given by its value.
\<close>

datatype number = IntNum int | FloatNum rat

definition num_value :: "number \<Rightarrow> rat" where
  "num_value x = (case x of IntNum n \<Rightarrow> of_int n | FloatNum v \<Rightarrow> v)"

text \<open>
  \<^verbatim>\<open>x / d\<close> for an int \<open>d\<close> that is not 0. The quotient of two ints is rounded to a float,
  and the division raises \<^verbatim>\<open>OverflowError\<close> (\<open>None\<close>) when the rounded quotient is beyond the
  largest float, that is when the exact quotient is at least \<open>2 ^ 1024 - 2 ^ 970\<close> in absolute
  value. The quotient of a float by an int does not raise. The value of the quotient is kept
  exact: both thresholds, 1 and 2, are floats and no quotient of a float or an int by 3600
  lies within half a unit in the last place below them, so the comparisons give the same
  answer on the rounded quotient.
\<close>

definition float_overflow_bound :: rat where
  "float_overflow_bound = 2 ^ 1024 - 2 ^ 970"

definition true_divide :: "number \<Rightarrow> int \<Rightarrow> rat option" where
  "true_divide x d =
     (case x of
        IntNum n \<Rightarrow>
          if float_overflow_bound \<le> \<bar>of_int n / of_int d\<bar> then None
          else Some (of_int n / of_int d)
      | FloatNum v \<Rightarrow> Some (v / of_int d))"

text \<open>
  \<^verbatim>\<open>calculate_credits\<close>. The argument is a number, so the \<^verbatim>\<open>isinstance\<close> test passes. The
  body is inside \<^verbatim>\<open>try\<close>: when the division raises, the \<^verbatim>\<open>except\<close> branch prints the error
  and returns 0.
\<close>

definition calculate_credits :: "number \<Rightarrow> bool \<Rightarrow> int" where
  "calculate_credits total_seconds has_special_role =
     (if num_value total_seconds < 0 then 0
      else
        case true_divide total_seconds 3600 of
          None \<Rightarrow> 0
        | Some total_hours \<Rightarrow>
            if total_hours \<ge> 2 then 5
            else if total_hours \<ge> 1 then 3
            else 0)"

section \<open>\<^verbatim>\<open>bot.py\<close>: what the Discord client answers, and what is sent\<close>

text \<open>
  The handlers of \<^verbatim>\<open>bot.py\<close> ask the Discord client for the member's roles and for the
  notification channels. The answers are parameters: \<open>unlimited_role u\<close> says that user
  \<open>u\<close> is a member of the guild holding the unlimited-time role, and the three channel
  flags say that \<^verbatim>\<open>bot.get_channel\<close> finds the channel. A message is recorded with the
  values that are formatted into its text, in the order of sending; a send that times out or
  fails is recorded all the same (the code only prints the error).
\<close>

record env =
  unlimited_role :: "uid \<Rightarrow> bool"
  milestone_channel :: bool
  pause_channel :: bool
  cancellation_channel :: bool

datatype message =
    MilestoneMessage string int string
      \<comment> \<open>\<^verbatim>\<open>user_name\<close>, \<^verbatim>\<open>hours_to_notify\<close>, \<^verbatim>\<open>formatted_time\<close>\<close>
  | PauseMessage string "string option" string string int
      \<comment> \<open>\<^verbatim>\<open>user_name\<close>, the session time when it is shown, \<^verbatim>\<open>formatted_total_time\<close>,
          \<^verbatim>\<open>paused_by\<close>, \<^verbatim>\<open>pause_count\<close>\<close>
  | AutoCancellationMessage string string string int
      \<comment> \<open>\<^verbatim>\<open>user_name\<close>, \<^verbatim>\<open>total_time\<close>, \<^verbatim>\<open>cancelled_by\<close>, \<^verbatim>\<open>pause_count\<close>\<close>

text \<open>The answers of \<^verbatim>\<open>pausar_tiempo\<close> to the interaction.\<close>

datatype response =
    PausedResponse
  | PausedAndCancelledResponse int
  | NoActiveTimeResponse

definition send_auto_cancellation_notification ::
  "env \<Rightarrow> string \<Rightarrow> string \<Rightarrow> string \<Rightarrow> int \<Rightarrow> message list" where
  "send_auto_cancellation_notification e user_name total_time_str cancelled_by pause_cnt =
     (if cancellation_channel e
      then [AutoCancellationMessage user_name total_time_str cancelled_by pause_cnt]
      else [])"

definition send_pause_notification ::
  "env \<Rightarrow> string \<Rightarrow> seconds \<Rightarrow> string \<Rightarrow> string \<Rightarrow> int \<Rightarrow> message list" where
  "send_pause_notification e user_name total_secs paused_by session_time pause_cnt =
     (if pause_channel e
      then
        let formatted_total_time = format_time_human total_secs
        in if session_time \<noteq> [] \<and> session_time \<noteq> ''0 Segundos''
           then [PauseMessage user_name (Some session_time) formatted_total_time paused_by pause_cnt]
           else [PauseMessage user_name None formatted_total_time paused_by pause_cnt]
      else [])"

subsection \<open>The command \<^verbatim>\<open>pausar_tiempo\<close>\<close>

text \<open>
  \<open>now_before\<close> is the clock read by the first \<^verbatim>\<open>get_total_time\<close>, \<open>now\<close> the clock read
  by \<^verbatim>\<open>pause_tracking\<close>. The arguments are \<^verbatim>\<open>usuario.id\<close>, \<^verbatim>\<open>usuario.display_name\<close>
  and \<^verbatim>\<open>interaction.user.mention\<close>.
\<close>

definition pausar_tiempo ::
  "env \<Rightarrow> tracker \<Rightarrow> uid \<Rightarrow> string \<Rightarrow> string \<Rightarrow> timestamp \<Rightarrow> timestamp
     \<Rightarrow> tracker \<times> response \<times> message list" where
  "pausar_tiempo e t usuario_id display_name admin now_before now =
     (let (user_data, t0) = get_user_data t usuario_id;
          (total_time_before, t1) = get_total_time t0 usuario_id now_before;
          (success, t2) = pause_tracking t1 usuario_id now
      in if success
         then
           let (total_time_after, t3) = get_total_time t2 usuario_id now;
               session_time = total_time_after - total_time_before;
               (pause_cnt, t4) = get_pause_count t3 usuario_id;
               formatted_total_time = format_time_human total_time_after;
               formatted_session_time =
                 (if session_time > 0 then format_time_human session_time else ''0 Segundos'')
           in if pause_cnt \<ge> 3
              then
                let (cancelled, t5) = cancel_user_tracking t4 usuario_id
                in (t5, PausedAndCancelledResponse pause_cnt,
                    send_auto_cancellation_notification e display_name formatted_total_time
                      admin pause_cnt)
              else (t4, PausedResponse,
                    send_pause_notification e display_name total_time_after admin
                      formatted_session_time pause_cnt)
         else (t2, NoActiveTimeResponse, []))"

subsection \<open>The catch-up sweep \<^verbatim>\<open>check_missing_milestones\<close>\<close>





section \<open>Sequences of ledger operations\<close>

text \<open>A call of one of the eight mutators, with its arguments.\<close>

datatype op =
    Start uid string
  | Stop uid
  | Pause uid
  | Resume uid
  | AddMinutes uid string int
  | SubtractMinutes uid int
  | Reset uid
  | Cancel uid

text \<open>An event is a call together with the reading of the clock during the call.\<close>

type_synonym event = "timestamp \<times> op"

fun apply_op :: "tracker \<Rightarrow> event \<Rightarrow> tracker" where
  "apply_op t (now, Start u n) = snd (start_tracking t u n now)"
| "apply_op t (now, Stop u) = snd (stop_tracking t u now)"
| "apply_op t (now, Pause u) = snd (pause_tracking t u now)"
| "apply_op t (now, Resume u) = snd (resume_tracking t u now)"
| "apply_op t (now, AddMinutes u n m) = snd (add_minutes t u n m)"
| "apply_op t (now, SubtractMinutes u m) = snd (subtract_minutes t u m)"
| "apply_op t (now, Reset u) = snd (reset_user_time t u)"
| "apply_op t (now, Cancel u) = snd (cancel_user_tracking t u)"

definition run :: "tracker \<Rightarrow> event list \<Rightarrow> tracker" where
  "run t evs = foldl apply_op t evs"

text \<open>The marker invariant that the code keeps (see C4).\<close>

definition markers_ok :: "user_record \<Rightarrow> bool" where
  "markers_ok r \<longleftrightarrow>
     (is_active r \<longrightarrow> last_start r \<noteq> None)
     \<and> (pause_start r \<noteq> None \<longleftrightarrow> is_paused r)
     \<and> \<not> (is_active r \<and> is_paused r)"

text \<open>Every \<open>add_minutes\<close> of the sequence has an argument that is not negative.\<close>

fun add_nonneg :: "event \<Rightarrow> bool" where
  "add_nonneg (now, AddMinutes u n m) = (0 \<le> m)"
| "add_nonneg _ = True"

text \<open>The operations that may lower the stored total of user \<open>u\<close>: reset and subtract.\<close>

fun lowering :: "uid \<Rightarrow> op \<Rightarrow> bool" where
  "lowering u (Reset u') = (u' = u)"
| "lowering u (SubtractMinutes u' m) = (u' = u)"
| "lowering u _ = False"

subsection \<open>The specification's account of running time\<close>






section \<open>Float arithmetic in the fold of a session\<close>

text \<open>
  Rounding of a rational to the nearest float (binary64: a significand of 53 bits, ties to
  the even significand). The range of the exponent is not bounded, so overflow and
  subnormal numbers are left out; neither occurs for numbers of seconds.
\<close>

definition pow2 :: "int \<Rightarrow> rat" where
  "pow2 k = (if 0 \<le> k then 2 ^ nat k else 1 / 2 ^ nat (- k))"

definition round_half_even :: "rat \<Rightarrow> int" where
  "round_half_even q =
     (let f = \<lfloor>q\<rfloor>; d = q - of_int f
      in if d < 1 / 2 then f else if 1 / 2 < d then f + 1 else if even f then f else f + 1)"

text \<open>The exponent \<open>k\<close> with \<open>2 ^ k \<le> x < 2 ^ (k + 1)\<close>, for a positive \<open>x\<close>.\<close>

definition float_exponent :: "rat \<Rightarrow> int" where
  "float_exponent x =
     (let (p, q) = quotient_of x; k = bitlen p - bitlen q
      in if pow2 k \<le> x then k else k - 1)"

definition round_double :: "rat \<Rightarrow> rat" where
  "round_double x =
     (if x = 0 then 0
      else
        let a = \<bar>x\<bar>;
            ulp = pow2 (float_exponent a - 52);
            m = round_half_even (a / ulp)
        in sgn x * of_int m * ulp)"

text \<open>
  \<^verbatim>\<open>stop_tracking\<close> and \<^verbatim>\<open>pause_tracking\<close> with the rounding written out: \<open>fl\<close> rounds a
  result to a float. The difference of two \<^verbatim>\<open>datetime\<close> values is exact (a \<^verbatim>\<open>timedelta\<close>
  counts microseconds), \<^verbatim>\<open>total_seconds()\<close> rounds it, and the sum with the stored total
  is rounded again. The definitions of the section on the methods are the case where \<open>fl\<close>
  changes nothing.
\<close>

definition stop_tracking_rounded ::
  "(rat \<Rightarrow> rat) \<Rightarrow> tracker \<Rightarrow> uid \<Rightarrow> timestamp \<Rightarrow> bool \<times> tracker" where
  "stop_tracking_rounded fl t user_id now =
     (case data t user_id of
        None \<Rightarrow> (False, t)
      | Some user_data \<Rightarrow>
          if \<not> is_active user_data then (False, t)
          else
            let session_time = (case last_start user_data of
                                  Some session_start \<Rightarrow> fl (now - session_start)
                                | None \<Rightarrow> 0);
                folded = (case last_start user_data of
                            Some session_start \<Rightarrow>
                              user_data\<lparr>total_time := fl (total_time user_data + session_time)\<rparr>
                          | None \<Rightarrow> user_data);
                idle = folded\<lparr>is_active := False, is_paused := False\<rparr>;
                entry = \<lparr>start_key = last_start idle, end_key = now,
                         duration_key = session_time\<rparr>
            in (True, save_data (t\<lparr>data := (data t)(user_id \<mapsto>
                        idle\<lparr>sessions := sessions idle @ [entry]\<rparr>)\<rparr>)))"

definition pause_tracking_rounded ::
  "(rat \<Rightarrow> rat) \<Rightarrow> tracker \<Rightarrow> uid \<Rightarrow> timestamp \<Rightarrow> bool \<times> tracker" where
  "pause_tracking_rounded fl t user_id now =
     (case data t user_id of
        None \<Rightarrow> (False, t)
      | Some user_data \<Rightarrow>
          if \<not> is_active user_data then (False, t)
          else
            let folded = (case last_start user_data of
                            Some session_start \<Rightarrow>
                              user_data\<lparr>total_time :=
                                fl (total_time user_data + fl (now - session_start))\<rparr>
                          | None \<Rightarrow> user_data)
            in (True, save_data (t\<lparr>data := (data t)(user_id \<mapsto>
                        folded\<lparr>is_active := False, is_paused := True, pause_start := Some now,
                                pause_count := pause_count folded + 1\<rparr>)\<rparr>)))"





section \<open>Observations and example states\<close>

text \<open>The stored \<^verbatim>\<open>total_time\<close> of a user, \<open>None\<close> when the user has no entry.\<close>

definition banked :: "tracker \<Rightarrow> uid \<Rightarrow> seconds option" where
  "banked t user_id = map_option total_time (data t user_id)"

text \<open>User 7 started at time 100 on an empty tracker; the same user paused at time 130.\<close>

definition running_example :: tracker where
  "running_example = snd (start_tracking empty_tracker 7 ''ana'' 100)"

definition paused_example :: tracker where
  "paused_example = snd (pause_tracking running_example 7 130)"

text \<open>User 7 after two pauses and two resumes, running again since time 140.\<close>

definition third_pause_example :: tracker where
  "third_pause_example = run empty_tracker
     [(100, Start 7 ''ana''), (110, Pause 7), (120, Resume 7), (130, Pause 7), (140, Resume 7)]"



definition example_env :: env where
  "example_env = \<lparr>unlimited_role = (\<lambda>u. False), milestone_channel = True,
     pause_channel = True, cancellation_channel = True\<rparr>"

section \<open>Invariants used in the proofs\<close>

definition all_markers_ok :: "tracker \<Rightarrow> bool" where
  "all_markers_ok t \<longleftrightarrow> (\<forall>u r. data t u = Some r \<longrightarrow> markers_ok r)"

text \<open>
  Every stored total is at least 0 and no session has started after time \<open>T\<close>.
\<close>

definition totals_ok :: "tracker \<Rightarrow> timestamp \<Rightarrow> bool" where
  "totals_ok t T \<longleftrightarrow>
     (\<forall>u r. data t u = Some r \<longrightarrow>
        0 \<le> total_time r \<and> (\<forall>s. last_start r = Some s \<longrightarrow> s \<le> T))"



section \<open>Properties\<close>

subsection \<open>Evaluating the examples\<close>

lemmas ledger_defs = start_tracking_def stop_tracking_def pause_tracking_def resume_tracking_def
  add_minutes_def subtract_minutes_def reset_user_time_def cancel_user_tracking_def save_data_def

lemma run_snoc: "run t (evs @ [e]) = apply_op (run t evs) e"
  by (simp add: run_def)

lemma run_Nil: "run t [] = t"
  by (simp add: run_def)


lemma running_example_data:
  "data running_example 7 =
     Some ((new_record ''ana'')\<lparr>is_active := True, last_start := Some 100\<rparr>)"
  by (simp add: running_example_def start_tracking_def empty_tracker_def save_data_def
      new_record_def Let_def)

lemma paused_example_data:
  "data paused_example 7 =
     Some ((new_record ''ana'')\<lparr>total_time := 30, is_paused := True, pause_count := 1,
            last_start := Some 100, pause_start := Some 130\<rparr>)"
  by (simp add: paused_example_def pause_tracking_def running_example_data save_data_def
      new_record_def)

lemma third_pause_example_data:
  "data third_pause_example 7 =
     Some ((new_record ''ana'')\<lparr>total_time := 20, is_active := True, pause_count := 2,
            last_start := Some 140\<rparr>)"
  by (simp add: third_pause_example_def run_def ledger_defs empty_tracker_def new_record_def
      Let_def)




subsection \<open>The third pause\<close>

text \<open>
  C1 (as the code has it). When a running user has been paused twice, \<open>pause_tracking\<close>
  records the third pause like any other: it returns true and the entry stays, paused, with
  a pause count of 3. The cancellation is a step of the caller: \<open>pausar_tiempo\<close>, on seeing
  a pause count of 3 after the successful pause, calls \<open>cancel_user_tracking\<close>, so that the
  entry is gone from memory and from the file, answers with the cancellation response and
  sends the automatic-cancellation message (when the cancellations channel is found) and
  no pause message.
\<close>

theorem third_pause_cancelled_by_caller:
  assumes "data t u = Some r" and "is_active r" and "pause_count r = 2"
  shows "fst (pause_tracking t u now) = True
       \<and> (\<exists>r' t'. data (snd (pause_tracking t u now)) u = Some r'
              \<and> is_paused r' \<and> pause_count r' = 3
              \<and> pausar_tiempo e t u display_name admin now_before now
                  = (t', PausedAndCancelledResponse 3,
                     if cancellation_channel e
                     then [AutoCancellationMessage display_name
                             (format_time_human (total_time r')) admin 3]
                     else [])
              \<and> data t' u = None \<and> saved t' u = None)"
  using assms
  by (auto simp: pausar_tiempo_def pause_tracking_def get_user_data_def get_total_time_def
      get_pause_count_def cancel_user_tracking_def save_data_def
      send_auto_cancellation_notification_def Let_def dom_def split: option.splits)

theorem third_pause_cancelled_by_caller_witness:
  "data third_pause_example 7 \<noteq> None
   \<and> fst (pause_tracking third_pause_example 7 150) = True
   \<and> data (fst (pausar_tiempo example_env third_pause_example 7 ''ana'' ''admin'' 149 150)) 7
       = None
   \<and> fst (snd (pausar_tiempo example_env third_pause_example 7 ''ana'' ''admin'' 149 150))
       = PausedAndCancelledResponse 3"
  using third_pause_cancelled_by_caller [OF third_pause_example_data, of 150
      example_env "''ana''" "''admin''" 149]
  by (auto simp: third_pause_example_data new_record_def)

text \<open>
  The claim that \<open>pause_tracking\<close> itself removes the entry and signals another outcome
  fails: the third pause of user 7 returns true, as the first pause of a user does, and the
  entry is still there, paused, with a pause count of 3.
\<close>

theorem third_pause_counterexample:
  "fst (pause_tracking third_pause_example 7 150) = True
   \<and> map_option pause_count (data (snd (pause_tracking third_pause_example 7 150)) 7) = Some 3
   \<and> map_option is_paused (data (snd (pause_tracking third_pause_example 7 150)) 7) = Some True
   \<and> fst (pause_tracking running_example 7 150) = True
   \<and> map_option pause_count (data (snd (pause_tracking running_example 7 150)) 7) = Some 1"
  by (simp add: pause_tracking_def third_pause_example_data running_example_data save_data_def
      new_record_def)

subsection \<open>Adding and subtracting minutes\<close>

text \<open>
  C2 (as the code has it). \<open>add_minutes\<close> adds \<open>minutes * 60\<close> to the stored total
  (starting from 0 for a user without an entry) and \<open>subtract_minutes\<close> replaces the stored
  total by \<open>max 0 (total - minutes * 60)\<close>, for every integer \<open>minutes\<close>: neither method
  tests the sign. So the total is unchanged by
  \<open>add_minutes\<close> when \<open>minutes = 0\<close>, and by \<open>subtract_minutes\<close> when \<open>minutes = 0\<close>
  and the total is not negative; a negative argument lowers the total in \<open>add_minutes\<close>
  and raises it in \<open>subtract_minutes\<close>. For every argument the total after
  \<open>subtract_minutes\<close> is at least 0.
\<close>

theorem add_subtract_minutes_total:
  "banked (snd (add_minutes t user_id user_name minutes)) user_id
     = Some ((case banked t user_id of None \<Rightarrow> 0 | Some b \<Rightarrow> b) + of_int minutes * 60)
   \<and> banked (snd (subtract_minutes t user_id minutes)) user_id
     = map_option (\<lambda>b. max 0 (b - of_int minutes * 60)) (banked t user_id)
   \<and> (minutes = 0 \<and> banked t user_id \<noteq> None \<longrightarrow>
        banked (snd (add_minutes t user_id user_name minutes)) user_id = banked t user_id)
   \<and> (minutes = 0 \<and> (\<forall>b. banked t user_id = Some b \<longrightarrow> 0 \<le> b) \<longrightarrow>
        banked (snd (subtract_minutes t user_id minutes)) user_id = banked t user_id)
   \<and> (\<forall>b'. banked (snd (subtract_minutes t user_id minutes)) user_id = Some b' \<longrightarrow> 0 \<le> b')"
  by (auto simp: banked_def add_minutes_def subtract_minutes_def save_data_def new_record_def
      Let_def split: option.splits)

theorem add_subtract_minutes_total_witness:
  "banked paused_example 7 = Some 30
   \<and> banked (snd (add_minutes paused_example 7 ''ana'' 2)) 7 = Some 150
   \<and> banked (snd (subtract_minutes paused_example 7 2)) 7 = Some 0
   \<and> banked (snd (add_minutes paused_example 7 ''ana'' 0)) 7 = Some 30
   \<and> banked (snd (subtract_minutes paused_example 7 0)) 7 = Some 30"
proof -
  have b: "banked paused_example 7 = Some 30"
    by (simp add: banked_def paused_example_data)
  from add_subtract_minutes_total [of paused_example 7 "''ana''" 2]
    add_subtract_minutes_total [of paused_example 7 "''ana''" 0] b
  show ?thesis by simp
qed

text \<open>
  The claim that both methods ignore arguments that are not positive fails: on a stored
  total of 600 seconds, \<open>add_minutes\<close> with -5 leaves 300 and \<open>subtract_minutes\<close>
  with -5 leaves 900.
\<close>

theorem nonpositive_minutes_counterexample:
  "banked (snd (add_minutes empty_tracker 7 ''ana'' 10)) 7 = Some 600
   \<and> (- 5 :: int) \<le> 0
   \<and> banked (snd (add_minutes (snd (add_minutes empty_tracker 7 ''ana'' 10)) 7 ''ana'' (- 5))) 7
       = Some 300
   \<and> banked (snd (subtract_minutes (snd (add_minutes empty_tracker 7 ''ana'' 10)) 7 (- 5))) 7
       = Some 900"
  by (simp add: banked_def add_minutes_def subtract_minutes_def empty_tracker_def save_data_def
      new_record_def Let_def)

subsection \<open>The stored total over sequences of operations\<close>

lemma totals_ok_mono: "totals_ok t T \<Longrightarrow> T \<le> T' \<Longrightarrow> totals_ok t T'"
  by (fastforce simp: totals_ok_def)

lemma apply_op_totals_ok:
  assumes "totals_ok t now" and "add_nonneg (now, op)"
  shows "totals_ok (apply_op t (now, op)) now"
  unfolding totals_ok_def
proof (intro allI impI)
  fix u r
  assume r: "data (apply_op t (now, op)) u = Some r"
  have old: "\<forall>r0. data t u = Some r0 \<longrightarrow>
               0 \<le> total_time r0 \<and> (\<forall>s. last_start r0 = Some s \<longrightarrow> s \<le> now)"
    using assms(1) by (simp add: totals_ok_def)
  show "0 \<le> total_time r \<and> (\<forall>s. last_start r = Some s \<longrightarrow> s \<le> now)"
    using r old assms(2)
    by (cases op)
       (auto simp: ledger_defs new_record_def Let_def dom_def
          split: option.splits if_splits)
qed

lemma run_totals_ok:
  "sorted (map fst evs) \<Longrightarrow> \<forall>e\<in>set evs. add_nonneg e \<Longrightarrow> \<forall>e\<in>set evs. fst e \<le> T
     \<Longrightarrow> totals_ok (run empty_tracker evs) T"
proof (induction evs arbitrary: T rule: rev_induct)
  case Nil
  show ?case by (simp add: run_Nil totals_ok_def empty_tracker_def)
next
  case (snoc e evs)
  obtain now op where e: "e = (now, op)" by (cases e)
  from snoc.prems(1) have srt: "sorted (map fst evs)" and le: "\<forall>x\<in>set evs. fst x \<le> now"
    by (auto simp: sorted_append e)
  from snoc.prems(2) have nn: "\<forall>x\<in>set evs. add_nonneg x" and nne: "add_nonneg (now, op)"
    by (auto simp: e)
  have "totals_ok (run empty_tracker evs) now"
    by (rule snoc.IH [OF srt nn le])
  then have "totals_ok (apply_op (run empty_tracker evs) (now, op)) now"
    using nne by (rule apply_op_totals_ok)
  moreover have "now \<le> T" using snoc.prems(3) by (simp add: e)
  ultimately show ?case
    by (simp add: run_snoc e totals_ok_mono)
qed

lemma apply_op_not_lowering:
  assumes "totals_ok t now" and "add_nonneg (now, op)" and "\<not> lowering u op"
    and "banked t u = Some b" and "banked (apply_op t (now, op)) u = Some b'"
  shows "b \<le> b'"
proof -
  have old: "\<forall>r0. data t u = Some r0 \<longrightarrow>
               0 \<le> total_time r0 \<and> (\<forall>s. last_start r0 = Some s \<longrightarrow> s \<le> now)"
    using assms(1) by (simp add: totals_ok_def)
  show ?thesis
    using old assms(2-)
    by (cases op)
       (auto simp: banked_def ledger_defs new_record_def Let_def dom_def
          split: option.splits if_splits)
qed

text \<open>
  C3 (as the code has it). Take any sequence of the eight ledger operations, run from the
  empty tracker, in which the clock never goes back and no \<open>add_minutes\<close> has a negative
  argument. Then the stored total of every user is at least 0 before and after the last
  operation, and the last operation does not lower the stored total of a user who has an
  entry before and after it, unless it is a reset or a subtraction for this user.
\<close>

theorem total_time_nonneg_monotone:
  assumes "sorted (map fst (evs @ [(now, op)]))"
    and "\<forall>e\<in>set (evs @ [(now, op)]). add_nonneg e"
  shows "(\<forall>b. banked (run empty_tracker evs) u = Some b \<longrightarrow> 0 \<le> b)
       \<and> (\<forall>b'. banked (run empty_tracker (evs @ [(now, op)])) u = Some b' \<longrightarrow> 0 \<le> b')
       \<and> (\<forall>b b'. banked (run empty_tracker evs) u = Some b
            \<and> banked (run empty_tracker (evs @ [(now, op)])) u = Some b'
            \<and> \<not> lowering u op \<longrightarrow> b \<le> b')"
proof -
  from assms(1) have srt: "sorted (map fst evs)" and le: "\<forall>x\<in>set evs. fst x \<le> now"
    by (auto simp: sorted_append)
  from assms(2) have nn: "\<forall>x\<in>set evs. add_nonneg x" and nne: "add_nonneg (now, op)"
    by auto
  have before: "totals_ok (run empty_tracker evs) now"
    by (rule run_totals_ok [OF srt nn le])
  have after: "totals_ok (run empty_tracker (evs @ [(now, op)])) now"
    by (rule run_totals_ok [OF assms]) (use le in auto)
  have 1: "\<forall>b. banked (run empty_tracker evs) u = Some b \<longrightarrow> 0 \<le> b"
    using before by (auto simp: totals_ok_def banked_def)
  have 2: "\<forall>b'. banked (run empty_tracker (evs @ [(now, op)])) u = Some b' \<longrightarrow> 0 \<le> b'"
    using after by (auto simp: totals_ok_def banked_def)
  have 3: "\<forall>b b'. banked (run empty_tracker evs) u = Some b
            \<and> banked (run empty_tracker (evs @ [(now, op)])) u = Some b'
            \<and> \<not> lowering u op \<longrightarrow> b \<le> b'"
    using apply_op_not_lowering [OF before nne] by (auto simp: run_snoc)
  from 1 2 3 show ?thesis by blast
qed

theorem total_time_nonneg_monotone_witness:
  "sorted (map fst ([(100 :: rat, Start 7 ''ana'')] @ [(130, Stop 7)]))
   \<and> banked (run empty_tracker [(100, Start 7 ''ana'')]) 7 = Some 0
   \<and> banked (run empty_tracker ([(100, Start 7 ''ana'')] @ [(130, Stop 7)])) 7 = Some 30
   \<and> \<not> lowering 7 (Stop 7) \<and> (0::rat) \<le> 30"
proof -
  have s: "sorted (map fst ([(100::rat, Start 7 ''ana'')] @ [(130, Stop 7)]))" by simp
  have a: "\<forall>e\<in>set ([(100, Start 7 ''ana'')] @ [(130, Stop 7)]). add_nonneg e" by simp
  have b0: "banked (run empty_tracker [(100, Start 7 ''ana'')]) 7 = Some 0"
    by (simp add: run_def banked_def ledger_defs empty_tracker_def new_record_def Let_def)
  have b1: "banked (run empty_tracker ([(100, Start 7 ''ana'')] @ [(130, Stop 7)])) 7 = Some 30"
    by (simp add: run_def banked_def ledger_defs empty_tracker_def new_record_def Let_def)
  from total_time_nonneg_monotone [OF s a, of 7] b0 b1 s show ?thesis by simp
qed

text \<open>
  The claim fails for every sequence: one \<open>add_minutes\<close> with the argument -5 on the empty
  tracker leaves a stored total of -300 seconds.
\<close>

theorem negative_total_counterexample:
  "banked (run empty_tracker [(0, AddMinutes 7 ''ana'' (- 5))]) 7 = Some (- 300)"
  by (simp add: run_def banked_def ledger_defs empty_tracker_def new_record_def Let_def)

text \<open>
  The clock matters as well: a session that is stopped at a reading of the clock earlier
  than its start is banked with a negative length.
\<close>

lemma clock_going_back:
  "banked (run empty_tracker [(100, Start 7 ''ana''), (50, Stop 7)]) 7 = Some (- 50)"
  by (simp add: run_def banked_def ledger_defs empty_tracker_def new_record_def Let_def)

subsection \<open>The markers of a session\<close>

lemma apply_op_markers_ok:
  assumes "all_markers_ok t"
  shows "all_markers_ok (apply_op t e)"
proof (cases e)
  case (Pair now op)
  show ?thesis
    unfolding Pair all_markers_ok_def
  proof (intro allI impI)
    fix u r
    assume r: "data (apply_op t (now, op)) u = Some r"
    have old: "\<forall>r0. data t u = Some r0 \<longrightarrow> markers_ok r0"
      using assms by (simp add: all_markers_ok_def)
    show "markers_ok r"
      using r old
      by (cases op)
         (auto simp: markers_ok_def ledger_defs new_record_def Let_def dom_def
            split: option.splits if_splits)
  qed
qed

lemma run_markers_ok: "all_markers_ok (run empty_tracker evs)"
proof (induction evs rule: rev_induct)
  case Nil
  show ?case by (simp add: run_Nil all_markers_ok_def empty_tracker_def)
next
  case (snoc e evs)
  then show ?case by (simp add: run_snoc apply_op_markers_ok)
qed

text \<open>
  C4 (as the code has it). In every entry reached from the empty tracker by the eight ledger
  operations, an active user has the key \<open>last_start\<close>, the key \<open>pause_start\<close> is present
  if and only if the user is paused, and no user is both active and paused. The converse for
  \<open>last_start\<close> is not kept: only \<open>reset_user_time\<close> deletes that key.
\<close>

theorem reachable_markers:
  "data (run empty_tracker evs) u = Some r \<Longrightarrow> markers_ok r"
  using run_markers_ok [of evs] by (simp add: all_markers_ok_def)

theorem reachable_markers_witness:
  "data (run empty_tracker [(100, Start 7 ''ana''), (130, Pause 7)]) 7
     = Some ((new_record ''ana'')\<lparr>total_time := 30, is_paused := True, pause_count := 1,
              last_start := Some 100, pause_start := Some 130\<rparr>)
   \<and> markers_ok ((new_record ''ana'')\<lparr>total_time := 30, is_paused := True, pause_count := 1,
              last_start := Some 100, pause_start := Some 130\<rparr>)"
proof -
  have d: "data (run empty_tracker [(100, Start 7 ''ana''), (130, Pause 7)]) 7
     = Some ((new_record ''ana'')\<lparr>total_time := 30, is_paused := True, pause_count := 1,
              last_start := Some 100, pause_start := Some 130\<rparr>)"
    by (simp add: run_def ledger_defs empty_tracker_def new_record_def Let_def)
  from reachable_markers [OF d] d show ?thesis by simp
qed

text \<open>
  The claim that the session-start marker is present only while the user is running fails:
  after a start at 100 and a stop at 130, and likewise after a start and a pause, the user is
  not active and \<open>last_start\<close> still holds 100.
\<close>

theorem last_start_kept_counterexample:
  "map_option (\<lambda>r. (is_active r, last_start r))
     (data (run empty_tracker [(100, Start 7 ''ana''), (130, Stop 7)]) 7) = Some (False, Some 100)
   \<and> map_option (\<lambda>r. (is_active r, last_start r))
     (data (run empty_tracker [(100, Start 7 ''ana''), (130, Pause 7)]) 7) = Some (False, Some 100)"
  by (simp add: run_def ledger_defs empty_tracker_def new_record_def Let_def)

subsection \<open>Banked time is running time\<close>






lemma rounded_exact:
  "stop_tracking_rounded (\<lambda>x. x) t u now = stop_tracking t u now"
  "pause_tracking_rounded (\<lambda>x. x) t u now = pause_tracking t u now"
  by (simp_all add: stop_tracking_rounded_def stop_tracking_def pause_tracking_rounded_def
      pause_tracking_def Let_def split: option.splits)











subsection \<open>The catch-up sweep\<close>













subsection \<open>Reading the total\<close>



subsection \<open>Credits\<close>

text \<open>
  The rounding of the quotient does not move the two thresholds: the largest int and the
  largest float below 3600 and below 7200 have quotients that round below 1 and below 2,
  and 1 and 2 are floats.
\<close>

lemma quotient_rounding_at_thresholds:
  "round_double (3599 / 3600) < 1 \<and> round_double ((3600 - 1 / 2 ^ 41) / 3600) < 1
   \<and> round_double (7199 / 3600) < 2 \<and> round_double ((7200 - 1 / 2 ^ 40) / 3600) < 2
   \<and> round_double (3600 - 1 / 2 ^ 41) = 3600 - 1 / 2 ^ 41
   \<and> round_double (7200 - 1 / 2 ^ 40) = 7200 - 1 / 2 ^ 40
   \<and> round_double 1 = 1 \<and> round_double 2 = 2"
  by code_simp

text \<open>
  C8 (as the code has it). For every number and either value of the tier flag,
  \<open>calculate_credits\<close> is 0 below 3600 seconds (negative inputs included) and 3 from 3600 up
  to but excluding 7200. From 7200 on it is 5, unless the division by 3600 raises, in which
  case the \<open>except\<close> branch returns 0; the division raises exactly for an int of at least
  \<open>3600 * (2 ^ 1024 - 2 ^ 970)\<close> in absolute value, whose quotient is beyond the largest
  float. The flag does not enter the result.
\<close>

theorem calculate_credits_steps:
  "calculate_credits x flag =
     (if num_value x < 3600 then 0
      else if num_value x < 7200 then 3
      else if true_divide x 3600 = None then 0
      else 5)
   \<and> (true_divide x 3600 = None) =
       (\<exists>n. x = IntNum n \<and> 3600 * float_overflow_bound \<le> \<bar>of_int n\<bar>)
   \<and> calculate_credits x True = calculate_credits x False"
  by (cases x)
     (auto simp: calculate_credits_def true_divide_def num_value_def float_overflow_bound_def
        abs_if field_simps)

text \<open>
  The claim that every total of at least 7200 seconds gives 5 fails for an int beyond the
  range of floats: the total \<open>10 ^ 400\<close>, which \<open>add_minutes\<close> can store, gives 0.
\<close>

theorem calculate_credits_overflow_counterexample:
  "7200 \<le> num_value (IntNum (10 ^ 400)) \<and> calculate_credits (IntNum (10 ^ 400)) False = 0"
  by (simp add: calculate_credits_def true_divide_def num_value_def float_overflow_bound_def)

subsection \<open>Formatting\<close>

text \<open>
  C9. \<open>format_time_human\<close> gives the zero-seconds string for 0 and for -5, and for 3661
  it lists the hour, the minute and the second in this order, each in the singular because
  each count is 1.
\<close>

theorem format_time_human_examples:
  "format_time_human 0 = ''0 Segundos''
   \<and> format_time_human (- 5) = ''0 Segundos''
   \<and> format_time_human 3661 = ''1 Hora, 1 Minuto, 1 Segundo''"
  by code_simp

text \<open>Counts other than 1 take the plural, and units that are 0 are left out.\<close>

lemma format_time_human_plural:
  "format_time_human 7322 = ''2 Horas, 2 Minutos, 2 Segundos''
   \<and> format_time_human 7200 = ''2 Horas''"
  by code_simp

subsection \<open>A start that is refused\<close>

text \<open>
  C10. When \<open>start_tracking\<close> returns false, the tracker it leaves is the one it was given:
  no field of any entry has changed (the name is not replaced by the new one) and the file
  has not been written. This happens exactly for a user whose entry is active or paused.
\<close>

theorem start_tracking_False_unchanged:
  "fst (start_tracking t user_id user_name now) = False \<Longrightarrow>
     snd (start_tracking t user_id user_name now) = t
     \<and> (\<exists>r. data t user_id = Some r \<and> (is_active r \<or> is_paused r))"
  by (auto simp: start_tracking_def Let_def new_record_def save_data_def
      split: option.splits if_splits)

theorem start_tracking_False_unchanged_witness:
  "fst (start_tracking paused_example 7 ''bea'' 200) = False
   \<and> snd (start_tracking paused_example 7 ''bea'' 200) = paused_example"
proof -
  have "fst (start_tracking paused_example 7 ''bea'' 200) = False"
    by (simp add: start_tracking_def paused_example_data Let_def dom_def)
  with start_tracking_False_unchanged [of paused_example 7 "''bea''" 200]
  show ?thesis by simp
qed

end
